theory Spec2Isabelle
  imports Complex_Main "HOL-Library.Char_ord" "HOL-Library.List_Lexorder" "HOL-Library.Sublist"
begin

section \<open>Data model of final.py\<close>

text \<open>
  The script works on a pandas DataFrame read from airports.csv. A frame is modelled as the
  list of its rows, in row order. A missing value (pandas NaN) of a text or coordinate
  column is \<open>None\<close>. The elevation column needs more care: after a failed conversion
  (lines 41-44) it still holds the strings read from the file, so one of its cells is a
  number, a string or NaN. Numbers are real numbers: float64 rounding is not modelled.
\<close>

datatype cell = Num real | Str string | NaN

datatype py_error = TypeError | ValueError string

record csv_row =
  name :: "string option"
  municipality :: "string option"
  type :: "string option"
  iso_region :: "string option"
  latitude_deg :: "real option"
  longitude_deg :: "real option"
  elevation_ft :: cell
  scheduled_service :: "string option"

text \<open>Line 24 adds the column \<open>State\<close> to the frame.\<close>

record airport = csv_row +
  State :: "string option"

subsection \<open>Loader (lines 8-27)\<close>

definition state_names :: "(string \<times> string) list" where
  "state_names =
     [(''US-CT'', ''Connecticut''),
      (''US-ME'', ''Maine''),
      (''US-MA'', ''Massachusetts''),
      (''US-NH'', ''New Hampshire''),
      (''US-RI'', ''Rhode Island''),
      (''US-VT'', ''Vermont'')]"

text \<open>\<open>df.dropna(subset=['latitude_deg', 'longitude_deg', 'iso_region'])\<close>\<close>

definition dropna_load :: "csv_row list \<Rightarrow> csv_row list" where
  "dropna_load rows =
     filter (\<lambda>r. latitude_deg r \<noteq> None \<and> longitude_deg r \<noteq> None \<and> iso_region r \<noteq> None) rows"

text \<open>\<open>df['State'] = df['iso_region'].map(state_names)\<close>: a code that is not a key gives NaN.\<close>

definition map_state :: "csv_row \<Rightarrow> airport" where
  "map_state r =
     \<lparr>name = name r, municipality = municipality r, type = type r,
      iso_region = iso_region r, latitude_deg = latitude_deg r,
      longitude_deg = longitude_deg r, elevation_ft = elevation_ft r,
      scheduled_service = scheduled_service r,
      State = (case iso_region r of None \<Rightarrow> None | Some c \<Rightarrow> map_of state_names c)\<rparr>"

definition load :: "csv_row list \<Rightarrow> airport list" where
  "load rows = filter (\<lambda>r. State r \<noteq> None) (map map_state (dropna_load rows))"

text \<open>The columns of a row that came from the file.\<close>

definition csv_part :: "airport \<Rightarrow> csv_row" where
  "csv_part r =
     \<lparr>name = name r, municipality = municipality r, type = type r,
      iso_region = iso_region r, latitude_deg = latitude_deg r,
      longitude_deg = longitude_deg r, elevation_ft = elevation_ft r,
      scheduled_service = scheduled_service r\<rparr>"

subsection \<open>filter_scheduled (lines 30-34)\<close>

definition filter_scheduled :: "airport list \<Rightarrow> bool \<Rightarrow> airport list" where
  "filter_scheduled data scheduled =
     (if scheduled then filter (\<lambda>r. scheduled_service r = Some ''yes'') data else data)"

subsection \<open>Comparing an elevation cell with an integer\<close>

text \<open>
  \<open>cell >= n\<close> as pandas and Python evaluate it: a number is compared, NaN compares
  false, and a string against an integer raises TypeError.
\<close>

fun cell_ge :: "cell \<Rightarrow> int \<Rightarrow> py_error + bool" where
  "cell_ge (Num x) n = Inr (of_int n \<le> x)"
| "cell_ge NaN n = Inr False"
| "cell_ge (Str s) n = Inl TypeError"

subsection \<open>elevation_level (lines 92-98)\<close>

definition elevation_level :: "airport \<Rightarrow> py_error + string" where
  "elevation_level row =
     (case cell_ge (elevation_ft row) 2000 of
        Inl e \<Rightarrow> Inl e
      | Inr True \<Rightarrow> Inr ''High''
      | Inr False \<Rightarrow>
          (case cell_ge (elevation_ft row) 1000 of
             Inl e \<Rightarrow> Inl e
           | Inr True \<Rightarrow> Inr ''Medium''
           | Inr False \<Rightarrow> Inr ''Low''))"

text \<open>The order Low < Medium < High of the three categories, to state monotonicity.\<close>

definition level_rank :: "py_error + string \<Rightarrow> nat" where
  "level_rank l =
     (if l = Inr ''High'' then 2 else if l = Inr ''Medium'' then 1 else 0)"

subsection \<open>What the page shows\<close>

text \<open>
  Each call that puts something on the page is one element, in the order of the calls. An
  element keeps the values it is built from; the formatting of numbers (and the rounding
  of lines 89 and 201) is left to the page. The two charts built from a re-sorted frame
  carry no data.
\<close>

datatype element =
    St_error py_error
  | Write_minimum_elevation "real option"
  | Write_maximum_elevation "real option"
  | Write_average_elevation "real option"
  | Write_sample_airport "string option" "string option"
  | Subheader string
  | Bar_chart "(string \<times> nat) list"
  | Pie_chart "(string \<times> nat) list"
  | Line_chart
  | Plotly_chart
  | Dataframe "(string option \<times> string option \<times> string option \<times> cell \<times> string option) list"
  | Pydeck_chart "real option" "real option"
  | Write_total_airports nat
  | Write_number_of_types nat
  | Write_average_latitude "real option"

subsection \<open>Elevation conversion (lines 41-44)\<close>

text \<open>
  \<open>astype(float)\<close> converts cell by cell and raises ValueError at the first string
  that is not a number. How Python reads a string as a float is a parameter \<open>parse\<close>:
  \<open>None\<close> when the string is rejected, \<open>Some None\<close> when it reads as NaN.
\<close>

fun to_float :: "(string \<Rightarrow> real option option) \<Rightarrow> cell \<Rightarrow> py_error + cell" where
  "to_float parse (Num x) = Inr (Num x)"
| "to_float parse NaN = Inr NaN"
| "to_float parse (Str s) =
     (case parse s of
        None \<Rightarrow> Inl (ValueError s)
      | Some None \<Rightarrow> Inr NaN
      | Some (Some x) \<Rightarrow> Inr (Num x))"

fun astype_float :: "(string \<Rightarrow> real option option) \<Rightarrow> cell list \<Rightarrow> py_error + cell list" where
  "astype_float parse [] = Inr []"
| "astype_float parse (c # cs) =
     (case to_float parse c of
        Inl e \<Rightarrow> Inl e
      | Inr v \<Rightarrow>
          (case astype_float parse cs of
             Inl e \<Rightarrow> Inl e
           | Inr vs \<Rightarrow> Inr (v # vs)))"

text \<open>\<open>df['elevation_ft'] = col\<close>, for a column as long as the frame.\<close>

definition set_elevation_ft :: "airport list \<Rightarrow> cell list \<Rightarrow> airport list" where
  "set_elevation_ft df col = map (\<lambda>(r, c). r\<lparr>elevation_ft := c\<rparr>) (zip df col)"

text \<open>The try/except: the frame after it, and what \<open>st.error\<close> has shown.\<close>

definition coerce_elevation ::
  "(string \<Rightarrow> real option option) \<Rightarrow> airport list \<Rightarrow> airport list \<times> element list" where
  "coerce_elevation parse df =
     (case astype_float parse (map elevation_ft df) of
        Inr col \<Rightarrow> (set_elevation_ft df col, [])
      | Inl e \<Rightarrow> (df, [St_error e]))"

subsection \<open>The type options of the multi-select (line 64) and filtered_all (line 71)\<close>

text \<open>\<open>Series.unique()\<close>: the distinct values in order of first appearance, NaN included.\<close>

definition unique :: "'a list \<Rightarrow> 'a list" where
  "unique xs = rev (remdups (rev xs))"

definition airport_type_options :: "airport list \<Rightarrow> string option list" where
  "airport_type_options df = unique (map type df)"

text \<open>\<open>filter_scheduled(df)\<close>: the omitted argument takes its default, True.\<close>

definition filtered_all :: "airport list \<Rightarrow> airport list" where
  "filtered_all df = filter_scheduled df True"

subsection \<open>Filter stage (lines 67-80)\<close>

text \<open>
  \<open>filtered[filtered['elevation_ft'] >= min_elevation]\<close>: the comparison runs over the
  whole column, so one string cell raises TypeError.
\<close>

fun filter_elevation :: "airport list \<Rightarrow> int \<Rightarrow> py_error + airport list" where
  "filter_elevation [] n = Inr []"
| "filter_elevation (r # rs) n =
     (case cell_ge (elevation_ft r) n of
        Inl e \<Rightarrow> Inl e
      | Inr b \<Rightarrow>
          (case filter_elevation rs n of
             Inl e \<Rightarrow> Inl e
           | Inr out \<Rightarrow> Inr (if b then r # out else out)))"

definition filtered ::
  "airport list \<Rightarrow> string \<Rightarrow> bool \<Rightarrow> int \<Rightarrow> string option list \<Rightarrow> py_error + airport list" where
  "filtered df state show_scheduled min_elevation airport_types =
     (case filter_elevation
             (filter_scheduled (filter (\<lambda>r. State r = Some state) df) show_scheduled)
             min_elevation of
        Inl e \<Rightarrow> Inl e
      | Inr f \<Rightarrow>
          Inr (filter (\<lambda>r. latitude_deg r \<noteq> None \<and> longitude_deg r \<noteq> None)
                 (filter (\<lambda>r. type r \<in> set airport_types) f)))"

text \<open>Lines 41-80 in one run: the result of the filter stage and what has been shown.\<close>

definition run ::
  "(string \<Rightarrow> real option option) \<Rightarrow> airport list \<Rightarrow> string \<Rightarrow> bool \<Rightarrow> int \<Rightarrow>
     string option list \<Rightarrow> (py_error + airport list) \<times> element list" where
  "run parse df state show_scheduled min_elevation airport_types =
     (case coerce_elevation parse df of
        (df', shown) \<Rightarrow> (filtered df' state show_scheduled min_elevation airport_types, shown))"

subsection \<open>elevation_stats (lines 37-38)\<close>

text \<open>
  \<open>min()\<close>, \<open>max()\<close> and \<open>mean()\<close> of a column skip NaN and give NaN when
  nothing is left. The script calls elevation_stats after line 74 only, where no string
  cell is left; on a column that still holds a string the reductions are taken to raise
  TypeError, as \<open>mean()\<close> does on text.

  The least and the greatest value are values of the column. The mean is computed in
  float64: every addition and the division round, and the order of the additions is the
  library's. The float64 mean of a column that is not empty is therefore a parameter,
  \<open>mean64\<close>, of everything that takes a mean. The model has no infinities: a column
  whose sum overflows is outside it.
\<close>

fun float_values :: "cell list \<Rightarrow> py_error + real list" where
  "float_values [] = Inr []"
| "float_values (Str s # cs) = Inl TypeError"
| "float_values (NaN # cs) = float_values cs"
| "float_values (Num x # cs) =
     (case float_values cs of Inl e \<Rightarrow> Inl e | Inr xs \<Rightarrow> Inr (x # xs))"

definition series_min :: "real list \<Rightarrow> real option" where
  "series_min xs = (case xs of [] \<Rightarrow> None | x # ys \<Rightarrow> Some (fold min ys x))"

definition series_max :: "real list \<Rightarrow> real option" where
  "series_max xs = (case xs of [] \<Rightarrow> None | x # ys \<Rightarrow> Some (fold max ys x))"

definition series_mean :: "(real list \<Rightarrow> real) \<Rightarrow> real list \<Rightarrow> real option" where
  "series_mean mean64 xs = (if xs = [] then None else Some (mean64 xs))"

definition elevation_stats ::
  "(real list \<Rightarrow> real) \<Rightarrow> airport list \<Rightarrow>
     py_error + (real option \<times> real option \<times> real option)" where
  "elevation_stats mean64 data =
     (case float_values (map elevation_ft data) of
        Inl e \<Rightarrow> Inl e
      | Inr xs \<Rightarrow> Inr (series_min xs, series_max xs, series_mean mean64 xs))"


subsection \<open>Count by type (line 103)\<close>

text \<open>
  \<open>groupby('type').size()\<close>: one count per type value, keys sorted; rows whose type
  is NaN belong to no group (\<open>dropna=True\<close> is the default of groupby).
\<close>

fun notna :: "'a option list \<Rightarrow> 'a list" where
  "notna [] = []"
| "notna (None # xs) = notna xs"
| "notna (Some x # xs) = x # notna xs"

definition type_counts :: "airport list \<Rightarrow> (string \<times> nat) list" where
  "type_counts data =
     map (\<lambda>t. (t, length (filter (\<lambda>r. type r = Some t) data)))
       (sort (remdups (notna (map type data))))"

subsection \<open>The page for a filtered frame (lines 86-201)\<close>

text \<open>
  \<open>filtered.apply(elevation_level, axis=1)\<close>: the function is called on each row in
  turn, and an exception of one call ends the run. On a frame without rows no call is made.
\<close>

fun apply_elevation_level :: "airport list \<Rightarrow> py_error + string list" where
  "apply_elevation_level [] = Inr []"
| "apply_elevation_level (r # rs) =
     (case elevation_level r of
        Inl e \<Rightarrow> Inl e
      | Inr c \<Rightarrow>
          (case apply_elevation_level rs of
             Inl e \<Rightarrow> Inl e
           | Inr cs \<Rightarrow> Inr (c # cs)))"

text \<open>
  Lines 103-201, with no search term entered (the search block of lines 145-149 is then
  skipped). \<open>frame\<close> is the filtered frame after the sort of line 83.
\<close>

definition display_rest ::
  "(real list \<Rightarrow> real) \<Rightarrow> string \<Rightarrow> airport list \<Rightarrow> nat \<Rightarrow> element list" where
  "display_rest mean64 state frame row_num =
     map (\<lambda>row. Write_sample_airport (name row) (municipality row)) (take 1 frame)
     @ [Subheader (''Types of Airports in '' @ state), Bar_chart (type_counts frame)]
     @ (if frame \<noteq> [] then [Pie_chart (type_counts frame)] else [])
     @ (if frame \<noteq> [] then [Subheader ''Airport Elevations (ft)'', Line_chart] else [])
     @ (if frame \<noteq> [] then [Subheader ''Elevation Distribution by Type (Plotly)'', Plotly_chart]
        else [])
     @ [Subheader ''Airport Table'',
        Dataframe (map (\<lambda>r. (name r, municipality r, type r, elevation_ft r, scheduled_service r))
                     (take row_num frame))]
     @ (if frame \<noteq> []
        then [Subheader ''Map of Airports'',
              Pydeck_chart (series_mean mean64 (notna (map latitude_deg frame)))
                (series_mean mean64 (notna (map longitude_deg frame)))]
        else [Subheader ''No airports match the current filters.''])
     @ [Write_total_airports (length frame),
        Write_number_of_types (length (remdups (notna (map type frame))))]
     @ (if frame \<noteq> []
        then [Write_average_latitude (series_mean mean64 (notna (map latitude_deg frame)))]
        else [])"

text \<open>
  Lines 86-201: the elements shown, and the exception that ended the run, if any.
\<close>

definition display ::
  "(real list \<Rightarrow> real) \<Rightarrow> string \<Rightarrow> airport list \<Rightarrow> nat \<Rightarrow>
     element list \<times> py_error option" where
  "display mean64 state frame row_num =
     (case elevation_stats mean64 frame of
        Inl e \<Rightarrow> ([], Some e)
      | Inr (min_elev, max_elev, avg_elev) \<Rightarrow>
          (let stats = [Write_minimum_elevation min_elev, Write_maximum_elevation max_elev,
                        Write_average_elevation avg_elev]
           in case apply_elevation_level frame of
                Inl e \<Rightarrow> (stats, Some e)
              | Inr categories \<Rightarrow> (stats @ display_rest mean64 state frame row_num, None)))"

subsection \<open>float64 rounding\<close>

text \<open>
  A float64 is an integer of at most 53 bits times a power of two, the exponent not below
  -1074. \<open>float64_scale\<close> brings a value that is not negative into that form by halving
  or doubling, with enough steps for the whole float64 range; \<open>float64_round\<close> then
  rounds to the nearest integer, a tie to the even one. A result beyond the largest
  float64 is not modelled.
\<close>

fun float64_scale :: "nat \<Rightarrow> real \<Rightarrow> int \<Rightarrow> real \<times> int" where
  "float64_scale 0 m e = (m, e)"
| "float64_scale (Suc n) m e =
     (if 2 ^ 53 \<le> m then float64_scale n (m / 2) (e + 1)
      else if m < 2 ^ 52 \<and> - 1074 < e then float64_scale n (m * 2) (e - 1)
      else (m, e))"

definition round_half_even :: "real \<Rightarrow> int" where
  "round_half_even m =
     (let f = \<lfloor>m\<rfloor>
      in if m - of_int f < 1 / 2 then f
         else if 1 / 2 < m - of_int f then f + 1
         else if even f then f else f + 1)"

definition float64_round :: "real \<Rightarrow> real" where
  "float64_round x =
     (case float64_scale 2200 \<bar>x\<bar> 0 of
        (m, e) \<Rightarrow> sgn x * of_int (round_half_even m) * 2 powi e)"

text \<open>
  One float64 mean, for running the definitions: the values are added from left to right,
  each addition rounded, and the sum is divided by the count, rounded. On a column of
  three equal values every order of the additions computes the same.
\<close>

definition float64_mean :: "real list \<Rightarrow> real" where
  "float64_mean xs =
     float64_round (foldl (\<lambda>s x. float64_round (s + x)) 0 xs / real (length xs))"

subsection \<open>Example rows\<close>

text \<open>A few rows of the file, to run the definitions on.\<close>

definition example_row :: "string \<Rightarrow> string option \<Rightarrow> string \<Rightarrow> cell \<Rightarrow> string \<Rightarrow> csv_row" where
  "example_row n t reg e s =
     \<lparr>name = Some n, municipality = None, type = t, iso_region = Some reg,
      latitude_deg = Some 42, longitude_deg = Some (- 72), elevation_ft = e,
      scheduled_service = Some s\<rparr>"

definition bradley :: csv_row where
  "bradley = example_row ''Bradley International Airport'' (Some ''large_airport'') ''US-CT'' (Num 173) ''yes''"

definition hartford_heliport :: csv_row where
  "hartford_heliport = example_row ''Hartford Hospital Heliport'' (Some ''heliport'') ''US-CT'' (Num 40) ''no''"

definition albany :: csv_row where
  "albany = example_row ''Albany International Airport'' (Some ''large_airport'') ''US-NY'' (Num 285) ''yes''"




definition untyped_strip :: csv_row where
  "untyped_strip = example_row ''Private Strip'' None ''US-VT'' (Num 900) ''no''"

definition unparsed_field :: csv_row where
  "unparsed_field = example_row ''Candlelight Farms Airport'' (Some ''small_airport'') ''US-CT'' (Str ''abc'') ''no''"

section \<open>Loader\<close>

lemma state_names_key_iff:
  "(\<exists>n. map_of state_names c = Some n) = (c \<in> fst ` set state_names)"
  using map_of_eq_None_iff [of state_names c] by (cases "map_of state_names c") simp_all

lemma state_names_key: "map_of state_names c = Some n \<Longrightarrow> c \<in> fst ` set state_names"
  using state_names_key_iff [of c] by blast

lemma State_map_state:
  "State (map_state r) = (case iso_region r of None \<Rightarrow> None | Some c \<Rightarrow> map_of state_names c)"
  by (simp add: map_state_def)

lemma csv_part_map_state: "csv_part (map_state r) = r"
  by (simp add: csv_part_def map_state_def)

lemma load_csv_part:
  "map csv_part (load rows) =
     filter (\<lambda>r. latitude_deg r \<noteq> None \<and> longitude_deg r \<noteq> None \<and>
                 (\<exists>c. iso_region r = Some c \<and> c \<in> fst ` set state_names)) rows"
proof -
  have eq: "(State (map_state r) \<noteq> None) = (\<exists>c. iso_region r = Some c \<and> c \<in> fst ` set state_names)" for r
    using state_names_key_iff by (cases "iso_region r") (simp_all add: State_map_state)
  have "map csv_part (load rows) = filter (\<lambda>r. State (map_state r) \<noteq> None) (dropna_load rows)"
    unfolding load_def by (induction "dropna_load rows" arbitrary: rows) (simp_all add: filter_map comp_def csv_part_map_state)
  also have "\<dots> = filter (\<lambda>r. latitude_deg r \<noteq> None \<and> longitude_deg r \<noteq> None \<and>
                 (\<exists>c. iso_region r = Some c \<and> c \<in> fst ` set state_names)) rows"
    unfolding dropna_load_def eq filter_filter by (rule filter_cong) auto
  finally show ?thesis .
qed

lemma load_rows:
  assumes "r \<in> set (load rows)"
  shows "latitude_deg r \<noteq> None \<and> longitude_deg r \<noteq> None \<and> iso_region r \<noteq> None \<and> State r \<noteq> None
       \<and> (\<exists>c. iso_region r = Some c \<and> c \<in> fst ` set state_names \<and> State r = map_of state_names c)"
proof -
  from assms obtain row where row: "row \<in> set (dropna_load rows)" "r = map_state row" "State r \<noteq> None"
    by (auto simp: load_def)
  then show ?thesis
    by (auto simp: dropna_load_def map_state_def dest: state_names_key split: option.splits)
qed

lemma state_names_values:
  "map_of state_names ''US-CT'' = Some ''Connecticut''"
  "map_of state_names ''US-ME'' = Some ''Maine''"
  "map_of state_names ''US-MA'' = Some ''Massachusetts''"
  "map_of state_names ''US-NH'' = Some ''New Hampshire''"
  "map_of state_names ''US-RI'' = Some ''Rhode Island''"
  "map_of state_names ''US-VT'' = Some ''Vermont''"
  by (simp_all add: state_names_def)

text \<open>
  Claim C8. Every row of the working set built by the loader has a latitude, a longitude,
  a region code and a State; every code of the table state_names maps to a display name;
  and a row of the file whose code is not in the table is not in the working set. The
  working set is exactly the rows of the file with coordinates and a code of the table.
\<close>

theorem load_working_set:
  "(\<forall>r\<in>set (load rows).
      latitude_deg r \<noteq> None \<and> longitude_deg r \<noteq> None \<and> iso_region r \<noteq> None \<and> State r \<noteq> None)
   \<and> (\<forall>c\<in>fst ` set state_names. map_of state_names c \<noteq> None)
   \<and> (\<forall>row\<in>set rows. \<forall>c. iso_region row = Some c \<and> c \<notin> fst ` set state_names \<longrightarrow>
         row \<notin> csv_part ` set (load rows))
   \<and> map csv_part (load rows) =
       filter (\<lambda>r. latitude_deg r \<noteq> None \<and> longitude_deg r \<noteq> None \<and>
                   (\<exists>c. iso_region r = Some c \<and> c \<in> fst ` set state_names)) rows"
proof (intro conjI ballI allI impI)
  fix r assume "r \<in> set (load rows)"
  from load_rows [OF this]
  show "latitude_deg r \<noteq> None" "longitude_deg r \<noteq> None" "iso_region r \<noteq> None" "State r \<noteq> None"
    by simp_all
next
  fix c assume "c \<in> fst ` set state_names"
  then show "map_of state_names c \<noteq> None"
    by (simp add: map_of_eq_None_iff)
next
  fix row c assume "row \<in> set rows" and c: "iso_region row = Some c \<and> c \<notin> fst ` set state_names"
  have "row \<notin> set (map csv_part (load rows))"
    unfolding load_csv_part using c by auto
  then show "row \<notin> csv_part ` set (load rows)" by simp
next
  show "map csv_part (load rows) =
       filter (\<lambda>r. latitude_deg r \<noteq> None \<and> longitude_deg r \<noteq> None \<and>
                   (\<exists>c. iso_region r = Some c \<and> c \<in> fst ` set state_names)) rows"
    by (rule load_csv_part)
qed

theorem load_working_set_witness:
  "albany \<in> set [bradley, albany] \<and> iso_region albany = Some ''US-NY''
   \<and> ''US-NY'' \<notin> fst ` set state_names
   \<and> albany \<notin> csv_part ` set (load [bradley, albany])
   \<and> map csv_part (load [bradley, albany]) = [bradley]"
proof -
  have h: "albany \<in> set [bradley, albany]" "iso_region albany = Some ''US-NY''"
    "''US-NY'' \<notin> fst ` set state_names"
    by (simp_all add: albany_def example_row_def state_names_def)
  have b: "iso_region bradley = Some ''US-CT''" "latitude_deg bradley \<noteq> None"
    "longitude_deg bradley \<noteq> None" "latitude_deg albany \<noteq> None"
    "longitude_deg albany \<noteq> None" "''US-CT'' \<in> fst ` set state_names"
    by (simp_all add: bradley_def albany_def example_row_def state_names_def)
  show ?thesis
    using load_working_set [of "[bradley, albany]"] h b by simp
qed

section \<open>Filter stage\<close>

lemma filter_elevation_eq:
  "filter_elevation rs n =
     (if \<exists>r\<in>set rs. \<exists>s. elevation_ft r = Str s then Inl TypeError
      else Inr (filter (\<lambda>r. \<exists>x. elevation_ft r = Num x \<and> of_int n \<le> x) rs))"
proof (induction rs)
  case Nil
  then show ?case by simp
next
  case (Cons r rs)
  then show ?case by (cases "elevation_ft r") auto
qed

lemma filtered_eq:
  "filtered df state sched m types =
     (if \<exists>r\<in>set df. State r = Some state \<and> (sched \<longrightarrow> scheduled_service r = Some ''yes'') \<and>
            (\<exists>s. elevation_ft r = Str s)
      then Inl TypeError
      else Inr (filter (\<lambda>r. State r = Some state \<and> (sched \<longrightarrow> scheduled_service r = Some ''yes'') \<and>
                  (\<exists>x. elevation_ft r = Num x \<and> of_int m \<le> x) \<and> type r \<in> set types \<and>
                  latitude_deg r \<noteq> None \<and> longitude_deg r \<noteq> None) df))"
proof (cases sched)
  case True
  then show ?thesis
    by (auto simp: filtered_def filter_scheduled_def filter_elevation_eq intro!: filter_cong)
next
  case False
  then show ?thesis
    by (auto simp: filtered_def filter_scheduled_def filter_elevation_eq intro!: filter_cong)
qed

text \<open>
  Claim C1. Whenever the filter stage returns a frame, that frame is a subsequence of its
  input (nothing is added), and every row of it has the selected State, has
  scheduled_service "yes" when the checkbox is set, has a numeric elevation of at least
  min_elevation, has a type among the selected types (so no selected type gives the empty
  frame) and has both coordinates. With the checkbox unset, filter_scheduled returns its
  argument unchanged. The stage returns a frame whenever no elevation of the input is a
  string.
\<close>

theorem filtered_sound:
  "(\<forall>out. filtered df state sched m types = Inr out \<longrightarrow>
      subseq out df \<and> set out \<subseteq> set df \<and> length out \<le> length df
      \<and> (\<forall>r\<in>set out.
            State r = Some state
          \<and> (sched \<longrightarrow> scheduled_service r = Some ''yes'')
          \<and> (\<exists>x. elevation_ft r = Num x \<and> of_int m \<le> x)
          \<and> type r \<in> set types
          \<and> latitude_deg r \<noteq> None \<and> longitude_deg r \<noteq> None)
      \<and> (types = [] \<longrightarrow> out = []))
   \<and> filter_scheduled data False = data
   \<and> ((\<forall>r\<in>set df. \<forall>s. elevation_ft r \<noteq> Str s) \<longrightarrow>
        (\<exists>out. filtered df state sched m types = Inr out))"
proof (intro conjI allI impI)
  fix out assume "filtered df state sched m types = Inr out"
  then have out: "out = filter (\<lambda>r. State r = Some state \<and> (sched \<longrightarrow> scheduled_service r = Some ''yes'') \<and>
                  (\<exists>x. elevation_ft r = Num x \<and> of_int m \<le> x) \<and> type r \<in> set types \<and>
                  latitude_deg r \<noteq> None \<and> longitude_deg r \<noteq> None) df"
    by (simp add: filtered_eq split: if_splits)
  show "subseq out df" unfolding out by (rule subseq_filter_left)
  show "set out \<subseteq> set df" unfolding out by (rule filter_is_subset)
  show "length out \<le> length df" unfolding out by (rule length_filter_le)
  show "\<forall>r\<in>set out.
            State r = Some state
          \<and> (sched \<longrightarrow> scheduled_service r = Some ''yes'')
          \<and> (\<exists>x. elevation_ft r = Num x \<and> of_int m \<le> x)
          \<and> type r \<in> set types
          \<and> latitude_deg r \<noteq> None \<and> longitude_deg r \<noteq> None"
    unfolding out by simp
  show "out = []" if "types = []" unfolding out using that by simp
next
  show "filter_scheduled data False = data" by (simp add: filter_scheduled_def)
next
  assume "\<forall>r\<in>set df. \<forall>s. elevation_ft r \<noteq> Str s"
  then show "\<exists>out. filtered df state sched m types = Inr out"
    by (simp add: filtered_eq)
qed

lemma example_frame:
  "load [bradley, hartford_heliport, albany] = [map_state bradley, map_state hartford_heliport]"
  by (simp add: load_def dropna_load_def map_state_def bradley_def hartford_heliport_def albany_def
      example_row_def state_names_def)

theorem filtered_sound_witness:
  "filtered (load [bradley, hartford_heliport, albany]) ''Connecticut'' True 100
      [Some ''large_airport'', Some ''heliport''] = Inr [map_state bradley]
   \<and> subseq [map_state bradley] (load [bradley, hartford_heliport, albany])
   \<and> State (map_state bradley) = Some ''Connecticut''
   \<and> scheduled_service (map_state bradley) = Some ''yes''
   \<and> (\<exists>x. elevation_ft (map_state bradley) = Num x \<and> 100 \<le> x)
   \<and> type (map_state bradley) \<in> set [Some ''large_airport'', Some ''heliport'']"
proof -
  have run: "filtered (load [bradley, hartford_heliport, albany]) ''Connecticut'' True 100
      [Some ''large_airport'', Some ''heliport''] = Inr [map_state bradley]"
    unfolding example_frame
    by (simp add: filtered_def filter_scheduled_def map_state_def bradley_def
        hartford_heliport_def example_row_def state_names_values)
  have num: "\<forall>r\<in>set (load [bradley, hartford_heliport, albany]). \<forall>s. elevation_ft r \<noteq> Str s"
    unfolding example_frame
    by (simp add: map_state_def bradley_def hartford_heliport_def example_row_def)
  show ?thesis
    using filtered_sound [of "load [bradley, hartford_heliport, albany]" "''Connecticut''" True 100
        "[Some ''large_airport'', Some ''heliport'']"] run num
    by simp
qed

section \<open>Categorisation\<close>

lemma elevation_level_Num:
  "elevation_ft row = Num x \<Longrightarrow>
     elevation_level row =
       Inr (if 2000 \<le> x then ''High'' else if 1000 \<le> x then ''Medium'' else ''Low'')"
  by (simp add: elevation_level_def)

lemma elevation_level_total:
  "(\<forall>s. elevation_ft row \<noteq> Str s) \<Longrightarrow>
     elevation_level row \<in> {Inr ''High'', Inr ''Medium'', Inr ''Low''}"
proof (cases "elevation_ft row")
  case (Num x)
  then show ?thesis by (simp add: elevation_level_Num)
next
  case (Str s)
  moreover assume "\<forall>s. elevation_ft row \<noteq> Str s"
  ultimately show ?thesis by simp
next
  case NaN
  then show ?thesis by (simp add: elevation_level_def)
qed

text \<open>
  Claim C3. On every row whose elevation is a number x, elevation_level returns (it does
  not raise) and the result is "High" when x >= 2000, "Medium" when 1000 <= x < 2000 and
  "Low" when x < 1000; so 2500 and 2000 give "High", 1500 and 1000 give "Medium", 500
  gives "Low"; and a higher elevation never gets a lower category. The function returns
  one of the three categories on every row whose elevation is not a string, so on every
  row of a frame returned by the filter stage.
\<close>

theorem elevation_level_thresholds:
  "(\<forall>row x. elevation_ft row = Num x \<longrightarrow>
      elevation_level row =
        Inr (if 2000 \<le> x then ''High'' else if 1000 \<le> x then ''Medium'' else ''Low''))
   \<and> (\<forall>row. elevation_ft row = Num 2500 \<longrightarrow> elevation_level row = Inr ''High'')
   \<and> (\<forall>row. elevation_ft row = Num 2000 \<longrightarrow> elevation_level row = Inr ''High'')
   \<and> (\<forall>row. elevation_ft row = Num 1500 \<longrightarrow> elevation_level row = Inr ''Medium'')
   \<and> (\<forall>row. elevation_ft row = Num 1000 \<longrightarrow> elevation_level row = Inr ''Medium'')
   \<and> (\<forall>row. elevation_ft row = Num 500 \<longrightarrow> elevation_level row = Inr ''Low'')
   \<and> (\<forall>r1 r2 x y. elevation_ft r1 = Num x \<and> elevation_ft r2 = Num y \<and> x \<le> y \<longrightarrow>
         level_rank (elevation_level r1) \<le> level_rank (elevation_level r2))
   \<and> (\<forall>row. (\<forall>s. elevation_ft row \<noteq> Str s) \<longrightarrow>
         elevation_level row \<in> {Inr ''High'', Inr ''Medium'', Inr ''Low''})
   \<and> (\<forall>df state sched m types out. filtered df state sched m types = Inr out \<longrightarrow>
         (\<forall>r\<in>set out. elevation_level r \<in> {Inr ''High'', Inr ''Medium'', Inr ''Low''}))"
proof -
  have mono: "level_rank (elevation_level r1) \<le> level_rank (elevation_level r2)"
    if "elevation_ft r1 = Num x \<and> elevation_ft r2 = Num y \<and> x \<le> y"
    for r1 r2 :: airport and x y
    using that by (simp add: elevation_level_Num level_rank_def)
  have fixed:
    "elevation_ft row = Num 2500 \<Longrightarrow> elevation_level row = Inr ''High''"
    "elevation_ft row = Num 2000 \<Longrightarrow> elevation_level row = Inr ''High''"
    "elevation_ft row = Num 1500 \<Longrightarrow> elevation_level row = Inr ''Medium''"
    "elevation_ft row = Num 1000 \<Longrightarrow> elevation_level row = Inr ''Medium''"
    "elevation_ft row = Num 500 \<Longrightarrow> elevation_level row = Inr ''Low''"
    for row :: airport
    by (simp_all add: elevation_level_Num)
  have reach: "elevation_level r \<in> {Inr ''High'', Inr ''Medium'', Inr ''Low''}"
    if "filtered df state sched m types = Inr out" "r \<in> set out"
    for df state sched m types out r
  proof -
    from that obtain x where "elevation_ft r = Num x"
      by (auto simp: filtered_eq split: if_splits)
    then show ?thesis by (intro elevation_level_total) simp
  qed
  show ?thesis
    by (intro conjI allI impI ballI) (fact elevation_level_Num fixed mono elevation_level_total reach)+
qed

theorem elevation_level_thresholds_witness:
  "elevation_level
     \<lparr>name = Some ''Mount Washington Regional'', municipality = Some ''Whitefield'',
      type = Some ''small_airport'', iso_region = Some ''US-NH'',
      latitude_deg = Some 44, longitude_deg = Some (-71), elevation_ft = Num 2000,
      scheduled_service = Some ''no'', State = Some ''New Hampshire''\<rparr> = Inr ''High''"
  using elevation_level_thresholds by simp

text \<open>
  Claim C10. A row whose elevation is missing (NaN) gets the category "Low": both
  comparisons are false, so the else branch is taken.
\<close>

theorem elevation_level_NaN:
  "elevation_ft row = NaN \<Longrightarrow> elevation_level row = Inr ''Low''"
  by (simp add: elevation_level_def)

theorem elevation_level_NaN_witness:
  "elevation_level
     \<lparr>name = Some ''Seaplane Base'', municipality = None,
      type = Some ''seaplane_base'', iso_region = Some ''US-ME'',
      latitude_deg = Some 45, longitude_deg = Some (-69), elevation_ft = NaN,
      scheduled_service = Some ''no'', State = Some ''Maine''\<rparr> = Inr ''Low''"
  using elevation_level_NaN
    [of "\<lparr>name = Some ''Seaplane Base'', municipality = None,
      type = Some ''seaplane_base'', iso_region = Some ''US-ME'',
      latitude_deg = Some 45, longitude_deg = Some (-69), elevation_ft = NaN,
      scheduled_service = Some ''no'', State = Some ''Maine''\<rparr>"]
  by simp

section \<open>Type options and filtered_all\<close>

lemma set_unique: "set (unique xs) = set xs"
  by (simp add: unique_def)

lemma distinct_unique: "distinct (unique xs)"
  by (simp add: unique_def)

text \<open>
  Claim C7, as amended. filtered_all is the base set restricted to the rows whose
  scheduled_service is "yes", and nothing else. The options of the type multi-select are
  the distinct type values of the whole base set, not of filtered_all; the types of
  filtered_all are among them.
\<close>

theorem filtered_all_and_options:
  "filtered_all df = filter (\<lambda>r. scheduled_service r = Some ''yes'') df
   \<and> set (airport_type_options df) = type ` set df
   \<and> distinct (airport_type_options df)
   \<and> type ` set (filtered_all df) \<subseteq> set (airport_type_options df)"
  by (auto simp: filtered_all_def filter_scheduled_def airport_type_options_def set_unique
      distinct_unique)

text \<open>
  On a base set of one heliport without scheduled service, the multi-select offers
  "heliport" while filtered_all is empty and has no type at all.
\<close>

theorem options_from_filtered_all_counterexample:
  "set (airport_type_options (load [hartford_heliport]))
     \<noteq> set (unique (map type (filtered_all (load [hartford_heliport]))))"
  by (simp add: load_def dropna_load_def map_state_def hartford_heliport_def example_row_def
      state_names_def filtered_all_def filter_scheduled_def airport_type_options_def unique_def)

section \<open>Elevation statistics\<close>

subsection \<open>Running the float64 rounding\<close>







lemma float64_mean_three_equal:
  "float64_round x = x \<Longrightarrow>
     float64_mean [x, x, x] = float64_round (float64_round (x + float64_round (x + x)) / 3)"
  by (simp add: float64_mean_def add.commute)

subsection \<open>elevation_stats on a frame of the filter stage\<close>















section \<open>Count by type\<close>

lemma count_notna_type:
  "count_list (notna (map type data)) t = length (filter (\<lambda>r. type r = Some t) data)"
proof (induction data)
  case Nil
  show ?case by simp
next
  case (Cons r data)
  then show ?case by (cases "type r") simp_all
qed

lemma length_notna_type:
  "length (notna (map type data)) = length (filter (\<lambda>r. type r \<noteq> None) data)"
proof (induction data)
  case Nil
  show ?case by simp
next
  case (Cons r data)
  then show ?case by (cases "type r") simp_all
qed

lemma set_notna: "set (notna xs) = {x. Some x \<in> set xs}"
  by (induction xs rule: notna.induct) auto

lemma type_counts_keys: "map fst (type_counts data) = sort (remdups (notna (map type data)))"
  by (simp add: type_counts_def comp_def)

lemma type_counts_total:
  "sum_list (map snd (type_counts data)) = length (filter (\<lambda>r. type r \<noteq> None) data)"
proof -
  let ?ts = "notna (map type data)"
  let ?keys = "sort (remdups ?ts)"
  have "sum_list (map snd (type_counts data)) = sum_list (map (count_list ?ts) ?keys)"
    by (simp add: type_counts_def comp_def flip: count_notna_type)
  also have "\<dots> = sum (count_list ?ts) (set ?keys)"
    by (rule sum_list_distinct_conv_sum_set) simp
  also have "\<dots> = sum (count_list ?ts) (set ?ts)"
    by simp
  also have "\<dots> = length ?ts"
    by (rule sum_count_set) simp_all
  finally show ?thesis
    by (simp add: length_notna_type)
qed

text \<open>
  Claim C6, as amended. The counts of type_counts sum to the number of rows that have a
  type, which is the number of all rows when no type is missing; the keys are distinct and
  are exactly the type values present; each count is the number of rows of that type and
  is positive. A row without a type is in no group.
\<close>

theorem type_counts_sum:
  "sum_list (map snd (type_counts data)) = length (filter (\<lambda>r. type r \<noteq> None) data)
   \<and> ((\<forall>r\<in>set data. type r \<noteq> None) \<longrightarrow> sum_list (map snd (type_counts data)) = length data)
   \<and> distinct (map fst (type_counts data))
   \<and> set (map fst (type_counts data)) = {t. \<exists>r\<in>set data. type r = Some t}
   \<and> (\<forall>t n. (t, n) \<in> set (type_counts data) \<longrightarrow>
         n = length (filter (\<lambda>r. type r = Some t) data) \<and> 0 < n)"
proof (intro conjI allI impI)
  show "sum_list (map snd (type_counts data)) = length (filter (\<lambda>r. type r \<noteq> None) data)"
    by (rule type_counts_total)
next
  assume "\<forall>r\<in>set data. type r \<noteq> None"
  then have "filter (\<lambda>r. type r \<noteq> None) data = data"
    by (simp add: filter_id_conv)
  then show "sum_list (map snd (type_counts data)) = length data"
    by (simp add: type_counts_total)
next
  show "distinct (map fst (type_counts data))"
    by (simp add: type_counts_keys)
next
  have "(Some t \<in> set (map type data)) = (\<exists>r\<in>set data. type r = Some t)" for t
    by (simp add: image_iff) metis
  then show "set (map fst (type_counts data)) = {t. \<exists>r\<in>set data. type r = Some t}"
    by (simp add: type_counts_keys set_notna)
next
  fix t n assume "(t, n) \<in> set (type_counts data)"
  then have n: "n = length (filter (\<lambda>r. type r = Some t) data)"
    and t: "t \<in> set (notna (map type data))"
    by (auto simp: type_counts_def)
  from t have "Some t \<in> set (map type data)" by (simp add: set_notna)
  then obtain r where "r \<in> set data" "type r = Some t"
    by (metis (no_types) imageE list.set_map)
  then have "filter (\<lambda>r. type r = Some t) data \<noteq> []"
    by (simp add: filter_empty_conv) blast
  then show "n = length (filter (\<lambda>r. type r = Some t) data)" "0 < n"
    using n by simp_all
qed

theorem type_counts_sum_witness:
  "type_counts (load [bradley, hartford_heliport]) = [(''heliport'', 1), (''large_airport'', 1)]
   \<and> sum_list (map snd (type_counts (load [bradley, hartford_heliport])))
       = length (load [bradley, hartford_heliport])"
proof -
  have fr: "load [bradley, hartford_heliport] = [map_state bradley, map_state hartford_heliport]"
    by (simp add: load_def dropna_load_def map_state_def bradley_def hartford_heliport_def
      example_row_def state_names_values)
  have h: "\<forall>r\<in>set (load [bradley, hartford_heliport]). type r \<noteq> None"
    unfolding fr by (simp add: map_state_def bradley_def hartford_heliport_def example_row_def)
  have srt: "sort [''large_airport'', ''heliport''] = [''heliport'', ''large_airport'']"
    by code_simp
  have v: "type_counts (load [bradley, hartford_heliport]) = [(''heliport'', 1), (''large_airport'', 1)]"
    unfolding fr
    by (simp add: type_counts_def map_state_def bradley_def hartford_heliport_def example_row_def
        del: sort_key_simps) (simp add: srt)
  show ?thesis
    using type_counts_sum [of "load [bradley, hartford_heliport]"] h v by blast
qed

text \<open>A frame of one row without a type: no group, so the counts sum to 0, not to 1.\<close>

theorem type_counts_missing_type_counterexample:
  "type_counts (load [untyped_strip]) = []
   \<and> sum_list (map snd (type_counts (load [untyped_strip]))) \<noteq> length (load [untyped_strip])"
  by (simp add: load_def dropna_load_def map_state_def untyped_strip_def example_row_def
      state_names_values type_counts_def)

section \<open>The empty frame\<close>

text \<open>
  Claim C5. With a minimum elevation of 5000 ft no row of the example frame is left. For the
  empty frame the page shows the three statistics lines (each NaN), the bar chart header
  and an empty bar chart, the table, then "No airports match the current filters." in place
  of the map, and the two totals; no exception ends the run.
\<close>

theorem empty_frame_display:
  "filtered (load [bradley]) ''Connecticut'' False 5000 [Some ''large_airport''] = Inr []
   \<and> display mean64 ''Connecticut'' [] 5 =
       ([Write_minimum_elevation None, Write_maximum_elevation None,
         Write_average_elevation None,
         Subheader ''Types of Airports in Connecticut'', Bar_chart [],
         Subheader ''Airport Table'', Dataframe [],
         Subheader ''No airports match the current filters.'',
         Write_total_airports 0, Write_number_of_types 0],
        None)"
proof -
  have "filtered (load [bradley]) ''Connecticut'' False 5000 [Some ''large_airport''] = Inr []"
    by (simp add: load_def dropna_load_def map_state_def bradley_def example_row_def
        state_names_values filtered_def filter_scheduled_def)
  moreover have "display mean64 ''Connecticut'' [] 5 =
       ([Write_minimum_elevation None, Write_maximum_elevation None,
         Write_average_elevation None,
         Subheader ''Types of Airports in Connecticut'', Bar_chart [],
         Subheader ''Airport Table'', Dataframe [],
         Subheader ''No airports match the current filters.'',
         Write_total_airports 0, Write_number_of_types 0],
        None)"
    by (simp add: display_def display_rest_def elevation_stats_def series_min_def series_max_def
        series_mean_def type_counts_def)
  ultimately show ?thesis by (rule conjI)
qed

section \<open>Elevation conversion\<close>

lemma coerce_elevation_failure:
  "astype_float parse (map elevation_ft df) = Inl e \<Longrightarrow>
     coerce_elevation parse df = (df, [St_error e])"
  by (simp add: coerce_elevation_def)

lemma astype_float_length:
  "astype_float parse cs = Inr vs \<Longrightarrow> length vs = length cs"
  by (induction cs arbitrary: vs) (auto split: sum.splits)

lemma astype_float_no_Str:
  "astype_float parse cs = Inr vs \<Longrightarrow> Str s \<notin> set vs"
proof (induction cs arbitrary: vs)
  case Nil
  then show ?case by simp
next
  case (Cons c cs)
  then show ?case
    by (cases c) (auto split: sum.splits option.splits)
qed

lemma astype_float_fails_iff:
  "(\<exists>e. astype_float parse cs = Inl e) = (\<exists>s. Str s \<in> set cs \<and> parse s = None)"
proof (induction cs)
  case Nil
  show ?case by simp
next
  case (Cons c cs)
  then show ?case
    by (cases c) (auto split: sum.splits option.splits)
qed

lemma coerce_elevation_success:
  assumes "astype_float parse (map elevation_ft df) = Inr col"
  shows "coerce_elevation parse df = (set_elevation_ft df col, [])"
    and "\<forall>r\<in>set (set_elevation_ft df col). \<forall>s. elevation_ft r \<noteq> Str s"
proof -
  show "coerce_elevation parse df = (set_elevation_ft df col, [])"
    using assms by (simp add: coerce_elevation_def)
  show "\<forall>r\<in>set (set_elevation_ft df col). \<forall>s. elevation_ft r \<noteq> Str s"
  proof (intro ballI allI)
    fix r s assume "r \<in> set (set_elevation_ft df col)"
    then obtain r0 c where "(r0, c) \<in> set (zip df col)" "r = r0\<lparr>elevation_ft := c\<rparr>"
      by (auto simp: set_elevation_ft_def)
    then have "elevation_ft r \<in> set col"
      by (auto dest: set_zip_rightD)
    with astype_float_no_Str [OF assms, of s] show "elevation_ft r \<noteq> Str s"
      by metis
  qed
qed

lemma run_after_failure:
  assumes "astype_float parse (map elevation_ft df) = Inl e"
    and "r \<in> set df" "State r = Some state"
    and "show_scheduled \<longrightarrow> scheduled_service r = Some ''yes''"
    and "elevation_ft r = Str s"
  shows "run parse df state show_scheduled min_elevation airport_types
           = (Inl TypeError, [St_error e])"
proof -
  have "\<exists>r\<in>set df. State r = Some state \<and> (show_scheduled \<longrightarrow> scheduled_service r = Some ''yes'')
          \<and> (\<exists>s. elevation_ft r = Str s)"
    using assms(2-5) by blast
  then have "filtered df state show_scheduled min_elevation airport_types = Inl TypeError"
    by (simp only: filtered_eq if_True)
  then show ?thesis
    by (simp add: run_def coerce_elevation_failure [OF assms(1)])
qed

lemma run_after_success:
  assumes "astype_float parse (map elevation_ft df) = Inr col"
  shows "\<exists>out. run parse df state show_scheduled min_elevation airport_types = (Inr out, [])"
proof -
  have "\<not> (\<exists>r\<in>set (set_elevation_ft df col). State r = Some state \<and>
            (show_scheduled \<longrightarrow> scheduled_service r = Some ''yes'') \<and> (\<exists>s. elevation_ft r = Str s))"
    using coerce_elevation_success(2) [OF assms] by blast
  then have "\<exists>out. filtered (set_elevation_ft df col) state show_scheduled min_elevation airport_types = Inr out"
    by (simp only: filtered_eq if_False) blast
  then show ?thesis
    by (simp add: run_def coerce_elevation_success(1) [OF assms])
qed

text \<open>
  Claim C9. When the conversion fails, the frame is left as it was and one error element
  is shown. The run then ends with TypeError at the comparison of line 74 as soon as a row
  of the selected state (with scheduled service, when that is asked for) still has a string
  as its elevation; so it does on a file whose only row has the elevation "abc".
\<close>

theorem coercion_failure_then_TypeError:
  "(\<forall>e. astype_float parse (map elevation_ft df) = Inl e \<longrightarrow>
        coerce_elevation parse df = (df, [St_error e]))
   \<and> (\<forall>e r s. astype_float parse (map elevation_ft df) = Inl e \<and> r \<in> set df
          \<and> State r = Some state \<and> (show_scheduled \<longrightarrow> scheduled_service r = Some ''yes'')
          \<and> elevation_ft r = Str s \<longrightarrow>
        run parse df state show_scheduled min_elevation airport_types
          = (Inl TypeError, [St_error e]))
   \<and> (parse ''abc'' = None \<longrightarrow>
        run parse (load [unparsed_field]) ''Connecticut'' False 0
          [Some ''small_airport'', Some ''large_airport'']
        = (Inl TypeError, [St_error (ValueError ''abc'')]))"
proof (intro conjI allI impI)
  fix e assume "astype_float parse (map elevation_ft df) = Inl e"
  then show "coerce_elevation parse df = (df, [St_error e])"
    by (rule coerce_elevation_failure)
next
  fix e r s
  assume "astype_float parse (map elevation_ft df) = Inl e \<and> r \<in> set df
          \<and> State r = Some state \<and> (show_scheduled \<longrightarrow> scheduled_service r = Some ''yes'')
          \<and> elevation_ft r = Str s"
  then show "run parse df state show_scheduled min_elevation airport_types
          = (Inl TypeError, [St_error e])"
    by (intro run_after_failure [of parse df e r state show_scheduled s]) simp_all
next
  assume p: "parse ''abc'' = None"
  have fr: "load [unparsed_field] = [map_state unparsed_field]"
    by (simp add: load_def dropna_load_def map_state_def unparsed_field_def
        example_row_def state_names_values)
  have c: "coerce_elevation parse [map_state unparsed_field]
             = ([map_state unparsed_field], [St_error (ValueError ''abc'')])"
    by (rule coerce_elevation_failure)
      (simp add: map_state_def unparsed_field_def example_row_def p)
  have f: "filtered [map_state unparsed_field] ''Connecticut'' False 0
          [Some ''small_airport'', Some ''large_airport''] = Inl TypeError"
    by (simp add: filtered_def filter_scheduled_def map_state_def unparsed_field_def
        example_row_def state_names_values)
  show "run parse (load [unparsed_field]) ''Connecticut'' False 0
          [Some ''small_airport'', Some ''large_airport'']
        = (Inl TypeError, [St_error (ValueError ''abc'')])"
    unfolding fr run_def c by (simp only: prod.case f)
qed

theorem coercion_failure_then_TypeError_witness:
  "astype_float (\<lambda>s. None) (map elevation_ft (load [unparsed_field]))
     = Inl (ValueError ''abc'')
   \<and> coerce_elevation (\<lambda>s. None) (load [unparsed_field])
     = (load [unparsed_field], [St_error (ValueError ''abc'')])
   \<and> run (\<lambda>s. None) (load [unparsed_field]) ''Connecticut'' False 0
          [Some ''small_airport'', Some ''large_airport'']
        = (Inl TypeError, [St_error (ValueError ''abc'')])"
proof -
  have a: "astype_float (\<lambda>s. None) (map elevation_ft (load [unparsed_field]))
     = Inl (ValueError ''abc'')"
    by (simp add: load_def dropna_load_def map_state_def unparsed_field_def
        example_row_def state_names_values)
  show ?thesis
    using coercion_failure_then_TypeError [of "\<lambda>s. None" "load [unparsed_field]"] a
    by simp
qed

end
